theory Spec2Isabelle
  imports Main "HOL-Library.Sublist"
begin

section \<open>The request pipeline of \<open>src/Fetcher.tsx\<close>\<close>

text \<open>
  The class \<open>Fetcher\<close> wraps the platform's \<open>fetch\<close>. Its private method \<open>request\<close>
  composes the request, notifies the registered observers, and drives the retry loop.
  The model is a shallow embedding: \<open>request\<close> becomes a function that returns the trace
  of the effects it performs (observer calls, timers, transport calls, body reads, console
  output) together with the settlement of the promise: \<open>Inr v\<close> when it resolves with
  \<open>v\<close>, \<open>Inl e\<close> when it rejects with \<open>e\<close>.
\<close>

subsection \<open>JavaScript values\<close>

text \<open>
  Bodies, decoded data and thrown values all have the TypeScript type \<open>any\<close>. The model
  represents the values of JSON, \<open>undefined\<close>, \<open>NaN\<close>, error objects (constructor name
  and message) and blobs (their bytes). Numbers are integers or \<open>NaN\<close>; functions,
  symbols and big integers are not represented.
\<close>

datatype js_value =
    JUndefined
  | JNull
  | JBool bool
  | JNumber int
  | JNaN
  | JString string
  | JArray "js_value list"
  | JObject "(string \<times> js_value) list"
  | JError string string
  | JBlob string

text \<open>The conversion to boolean that \<open>if (body)\<close> performs.\<close>

fun truthy :: "js_value \<Rightarrow> bool" where
  "truthy JUndefined = False"
| "truthy JNull = False"
| "truthy (JBool b) = b"
| "truthy (JNumber n) = (n \<noteq> 0)"
| "truthy JNaN = False"
| "truthy (JString s) = (s \<noteq> [])"
| "truthy (JArray xs) = True"
| "truthy (JObject kvs) = True"
| "truthy (JError name msg) = True"
| "truthy (JBlob bytes) = True"

text \<open>\<open>String.prototype.includes\<close>: does \<open>sub\<close> occur in \<open>s\<close> as a contiguous run?\<close>

primrec str_includes :: "string \<Rightarrow> string \<Rightarrow> bool" where
  "str_includes [] sub = (sub = [])"
| "str_includes (c # cs) sub = (prefix sub (c # cs) \<or> str_includes cs sub)"

text \<open>The decimal rendering of a status code inside a template literal.\<close>

fun decimal :: "nat \<Rightarrow> string" where
  "decimal n = (if n < 10 then [''0123456789'' ! n]
                else decimal (n div 10) @ [''0123456789'' ! (n mod 10)])"

declare decimal.simps [simp del]

text \<open>Destructuring with a default: the default applies when the property is undefined.\<close>

definition default :: "'a \<Rightarrow> 'a option \<Rightarrow> 'a" where
  "default d v = (case v of None \<Rightarrow> d | Some x \<Rightarrow> x)"

subsection \<open>Types of the module\<close>

datatype HttpMethod = GET | POST | PUT | DELETE

datatype RequestCache = CacheDefault | NoStore | Reload | NoCache | ForceCache | OnlyIfCached

text \<open>
  \<open>RequestInit\<close>, the object handed to \<open>fetch\<close>. A \<open>Record<string, string>\<close> is a
  map from keys to values; the abort signal is identified with the handle of the timer
  that aborts it.
\<close>

record RequestInit =
  "method" :: HttpMethod
  headers :: "string \<rightharpoonup> string"
  cache :: RequestCache
  body :: "string option"
  signal :: "nat option"

text \<open>
  \<open>FetchOptions\<close>: every property is optional, \<open>None\<close> stands for \<open>undefined\<close>
  (for \<open>body\<close>, of type \<open>any\<close>, the value \<open>JUndefined\<close>). The numbers
  \<open>revalidateAfter\<close>, \<open>timeout\<close> and \<open>retries\<close> are integers.
\<close>

record FetchOptions =
  "method" :: "HttpMethod option"
  headers :: "(string \<rightharpoonup> string) option"
  body :: js_value
  cache :: "RequestCache option"
  debug :: "bool option"
  revalidateAfter :: "int option"
  timeout :: "int option"
  retries :: "int option"
  showLoading :: "bool option"

datatype MiddlewareHook = Before | After

text \<open>
  A middleware function is called with a URL and one more argument: the before hooks get
  the request options, the after hooks get the decoded data in the same position. It
  returns nothing; \<open>Some e\<close> models that the call throws \<open>e\<close>.
\<close>

datatype hook_arg = Options RequestInit | Data js_value

type_synonym MiddlewareFn = "string \<Rightarrow> hook_arg \<Rightarrow> js_value option"

type_synonym LoadingFn = "bool \<Rightarrow> string \<Rightarrow> js_value option"

record Fetcher =
  baseURL :: string
  token :: "string option"
  middlewares_before :: "MiddlewareFn list"
  middlewares_after :: "MiddlewareFn list"
  loadingSubscribers :: "LoadingFn list"

subsection \<open>The platform\<close>

text \<open>
  A \<open>Response\<close> is modelled by what its members yield: the \<open>ok\<close> flag, the status,
  the value of \<open>headers.get("content-type")\<close> (\<open>None\<close> for \<open>null\<close>), and the
  settlement of each of its three body readers.
\<close>

record response =
  ok :: bool
  status :: nat
  content_type :: "string option"
  body_json :: "js_value + js_value"
  body_text :: "js_value + string"
  body_blob :: "js_value + string"

text \<open>
  How one call of \<open>fetch\<close> settles: it rejects before the attempt's timer has fired
  (a network failure), it rejects because the timer fired and aborted it, or it resolves
  with a response.
\<close>

datatype fetch_outcome = Rejects js_value | TimesOut js_value | Resolves response

text \<open>
  The platform is a parameter of the model: \<open>fetch k\<close> is the settlement of the call
  made by attempt \<open>k\<close> (counted from 0) of the request, and \<open>JSON_stringify\<close> is
  \<open>JSON.stringify\<close>, which yields a string on every truthy value represented here.
\<close>

record env =
  fetch :: "nat \<Rightarrow> fetch_outcome"
  JSON_stringify :: "js_value \<Rightarrow> string"

subsection \<open>Effects\<close>

datatype strategy = AsJson | AsText | AsBlob

datatype console =
    LogFetching HttpMethod string
  | LogBody js_value
  | LogSuccess js_value
  | WarnAttemptFailed nat string js_value

datatype event =
    HookCalled MiddlewareHook nat string hook_arg
  | LoadingCalled nat bool string
  | SetTimeout nat int
  | ClearTimeout nat
  | TimerFired nat
  | FetchCalled string RequestInit
  | BodyRead strategy
  | Console console

type_synonym settled = "js_value + js_value"

text \<open>
  \<open>Array.prototype.forEach\<close> over a list of observers: they are called in order, and
  the first one that throws ends the iteration with its exception.
\<close>

fun forEach :: "(nat \<Rightarrow> 'fn \<Rightarrow> event \<times> js_value option) \<Rightarrow> nat \<Rightarrow> 'fn list
    \<Rightarrow> event list \<times> js_value option" where
  "forEach call i [] = ([], None)"
| "forEach call i (fn # fns) =
     (case call i fn of
        (ev, Some e) \<Rightarrow> ([ev], Some e)
      | (ev, None) \<Rightarrow> (case forEach call (Suc i) fns of (evs, r) \<Rightarrow> (ev # evs, r)))"

subsection \<open>Configuration and registration\<close>

definition setBaseURL :: "Fetcher \<Rightarrow> string \<Rightarrow> Fetcher" where
  "setBaseURL this url = this\<lparr>baseURL := url\<rparr>"

definition setToken :: "Fetcher \<Rightarrow> string \<Rightarrow> Fetcher" where
  "setToken this tok = this\<lparr>token := Some tok\<rparr>"

definition addMiddleware :: "Fetcher \<Rightarrow> MiddlewareHook \<Rightarrow> MiddlewareFn \<Rightarrow> Fetcher" where
  "addMiddleware this hook fn =
     (case hook of
        Before \<Rightarrow> this\<lparr>middlewares_before := middlewares_before this @ [fn]\<rparr>
      | After \<Rightarrow> this\<lparr>middlewares_after := middlewares_after this @ [fn]\<rparr>)"

definition onLoading :: "Fetcher \<Rightarrow> LoadingFn \<Rightarrow> Fetcher" where
  "onLoading this fn = this\<lparr>loadingSubscribers := loadingSubscribers this @ [fn]\<rparr>"

text \<open>The new instance exported as \<open>fetcher\<close>.\<close>

definition fetcher :: Fetcher where
  "fetcher = \<lparr>baseURL = [], token = None, middlewares_before = [], middlewares_after = [],
       loadingSubscribers = []\<rparr>"

definition notifyLoading :: "Fetcher \<Rightarrow> bool \<Rightarrow> string \<Rightarrow> event list \<times> js_value option" where
  "notifyLoading this isLoading url =
     forEach (\<lambda>i fn. (LoadingCalled i isLoading url, fn isLoading url)) 0 (loadingSubscribers this)"

subsection \<open>Composition of the request\<close>

text \<open>
  The locals of \<open>request\<close> that the retry loop reads: the receiver, the platform, the
  destructured options with their defaults applied, the full URL and the composed
  \<open>fetchOptions\<close>.
\<close>

record locals =
  self :: Fetcher
  platform :: env
  "method" :: HttpMethod
  fullURL :: string
  fetchOptions :: RequestInit
  body :: js_value
  debug :: bool
  timeout :: int
  retries :: int
  showLoading :: bool

text \<open>
  The header object: the default content type, overwritten by the spread of the caller's
  headers, then the bearer credential when \<open>this.token\<close> is truthy.
\<close>

definition finalHeaders :: "Fetcher \<Rightarrow> (string \<rightharpoonup> string) \<Rightarrow> (string \<rightharpoonup> string)" where
  "finalHeaders this hdrs =
     (let composed = [''Content-Type'' \<mapsto> ''application/json''] ++ hdrs
      in case token this of
           None \<Rightarrow> composed
         | Some tok \<Rightarrow>
             if tok \<noteq> [] then composed(''Authorization'' \<mapsto> ''Bearer '' @ tok) else composed)"

text \<open>
  The first part of the body of \<open>request\<close>: the options are destructured with their
  defaults, the base URL is prepended when it is truthy, and \<open>fetchOptions\<close> is built,
  with a body only when the \<open>body\<close> option is truthy.
\<close>

definition scope :: "Fetcher \<Rightarrow> env \<Rightarrow> string \<Rightarrow> FetchOptions \<Rightarrow> locals" where
  "scope this pf url options =
     (let meth = default GET (FetchOptions.method options);
          hdrs = default Map.empty (FetchOptions.headers options);
          bdy = FetchOptions.body options;
          cch = default CacheDefault (FetchOptions.cache options);
          dbg = default False (FetchOptions.debug options);
          tmo = default 8000 (FetchOptions.timeout options);
          rtr = default 1 (FetchOptions.retries options);
          shw = default False (FetchOptions.showLoading options);
          full = (if baseURL this \<noteq> [] then baseURL this @ url else url);
          init = \<lparr>RequestInit.method = meth,
                  RequestInit.headers = finalHeaders this hdrs,
                  RequestInit.cache = cch,
                  RequestInit.body = (if truthy bdy then Some (JSON_stringify pf bdy) else None),
                  signal = None\<rparr>
      in \<lparr>self = this, platform = pf, method = meth, fullURL = full, fetchOptions = init,
          body = bdy, debug = dbg, timeout = tmo, retries = rtr, showLoading = shw\<rparr>)"

subsection \<open>Decoding a response\<close>

text \<open>
  The declared content type, or the empty string when the header is absent or empty; the
  choice of the body reader by \<open>includes\<close>, in the order of the \<open>if\<close> chain; and the
  awaited read, which rejects when the reader rejects.
\<close>

definition contentType :: "response \<Rightarrow> string" where
  "contentType r =
     (case content_type r of None \<Rightarrow> [] | Some ct \<Rightarrow> if ct \<noteq> [] then ct else [])"

definition classify :: "string \<Rightarrow> strategy" where
  "classify ct =
     (if str_includes ct ''application/json'' then AsJson
      else if str_includes ct ''text/'' then AsText
      else AsBlob)"

definition readBody :: "response \<Rightarrow> strategy \<Rightarrow> settled" where
  "readBody r s =
     (case s of
        AsJson \<Rightarrow> body_json r
      | AsText \<Rightarrow> map_sum id JString (body_text r)
      | AsBlob \<Rightarrow> map_sum id JBlob (body_blob r))"

subsection \<open>One attempt\<close>

text \<open>
  The observer calls of \<open>request\<close>: the before hooks get the full URL and
  \<open>fetchOptions\<close>, the after hooks the full URL and the decoded data, and the loading
  subscribers are notified only under \<open>showLoading\<close>.
\<close>

definition callBefore :: "locals \<Rightarrow> event list \<times> js_value option" where
  "callBefore l =
     forEach (\<lambda>i fn. (HookCalled Before i (fullURL l) (Options (fetchOptions l)),
                      fn (fullURL l) (Options (fetchOptions l))))
       0 (middlewares_before (self l))"

definition callAfter :: "locals \<Rightarrow> js_value \<Rightarrow> event list \<times> js_value option" where
  "callAfter l data =
     forEach (\<lambda>i fn. (HookCalled After i (fullURL l) (Data data), fn (fullURL l) (Data data)))
       0 (middlewares_after (self l))"

definition loadingIfShown :: "locals \<Rightarrow> bool \<Rightarrow> event list \<times> js_value option" where
  "loadingIfShown l isLoading =
     (if showLoading l then notifyLoading (self l) isLoading (fullURL l) else ([], None))"

text \<open>
  What the \<open>try\<close> block does once \<open>fetch\<close> has resolved with \<open>r\<close> and the timer is
  cleared: the status check, the body read, the after hooks, the closing loading
  notification. \<open>Inl e\<close> is an exception that reaches the \<open>catch\<close> clause.
\<close>

definition onResponse :: "locals \<Rightarrow> response \<Rightarrow> event list \<times> settled" where
  "onResponse l r =
     (if \<not> ok r then
        ([], Inl (JError ''Error'' (''[fetcher] Request failed with status '' @ decimal (status r))))
      else
        (let s = classify (contentType r) in
         case readBody r s of
           Inl e \<Rightarrow> ([BodyRead s], Inl e)
         | Inr data \<Rightarrow>
             (let logged = BodyRead s # (if debug l then [Console (LogSuccess data)] else []) in
              case callAfter l data of
                (evs, Some e) \<Rightarrow> (logged @ evs, Inl e)
              | (evs, None) \<Rightarrow>
                  (case loadingIfShown l False of
                     (evs', Some e) \<Rightarrow> (logged @ evs @ evs', Inl e)
                   | (evs', None) \<Rightarrow> (logged @ evs @ evs', Inr data)))))"

text \<open>
  The \<open>try\<close> block of attempt number \<open>attempt\<close>. \<open>started\<close> is what it does up to
  the awaited transport call: a new controller and timer (the attempt number serves as
  the timer's handle), the debug output, the call. \<open>clearTimeout\<close> stands on the line
  after the awaited call, so it runs only when the call resolved.
\<close>

definition started :: "locals \<Rightarrow> nat \<Rightarrow> event list" where
  "started l timer =
     SetTimeout timer (timeout l)
     # (if debug l then
          Console (LogFetching (method l) (fullURL l))
          # (if truthy (body l) then [Console (LogBody (body l))] else [])
        else [])
     @ [FetchCalled (fullURL l) ((fetchOptions l)\<lparr>signal := Some timer\<rparr>)]"

definition tryBlock :: "locals \<Rightarrow> nat \<Rightarrow> event list \<times> settled" where
  "tryBlock l attempt =
     (let timer = attempt in
      case fetch (platform l) attempt of
        Rejects e \<Rightarrow> (started l timer, Inl e)
      | TimesOut e \<Rightarrow> (started l timer @ [TimerFired timer], Inl e)
      | Resolves r \<Rightarrow>
          (case onResponse l r of
             (evs, res) \<Rightarrow> (started l timer @ ClearTimeout timer # evs, res)))"

subsection \<open>The retry loop\<close>

text \<open>
  \<open>while (attempt < retries)\<close> with its \<open>catch\<close> clause, and the two statements after
  the loop, which run when the condition is false.
\<close>

function loop :: "locals \<Rightarrow> nat \<Rightarrow> js_value \<Rightarrow> event list \<times> settled" where
  "loop l attempt lastError =
     (if int attempt < retries l then
        (case tryBlock l attempt of
           (evs, Inr data) \<Rightarrow> (evs, Inr data)
         | (evs, Inl err) \<Rightarrow>
             (let warned = evs @ (if debug l
                                  then [Console (WarnAttemptFailed (attempt + 1) (fullURL l) err)]
                                  else [])
              in if retries l \<le> int (attempt + 1) then
                   (case loadingIfShown l False of
                      (evs', Some e) \<Rightarrow> (warned @ evs', Inl e)
                    | (evs', None) \<Rightarrow> (warned @ evs', Inl err))
                 else
                   (case loop l (attempt + 1) err of (evs', res) \<Rightarrow> (warned @ evs', res))))
      else
        (case loadingIfShown l False of
           (evs, Some e) \<Rightarrow> (evs, Inl e)
         | (evs, None) \<Rightarrow> (evs, Inl lastError)))"
  by pat_completeness auto
termination
  by (relation "measure (\<lambda>(l, attempt, lastError). nat (retries l - int attempt))") auto

declare loop.simps [simp del]

subsection \<open>The request and the verb methods\<close>

text \<open>
  The second part of the body of \<open>request\<close>: the before hooks, the opening loading
  notification, and the loop, entered with \<open>attempt = 0\<close> and \<open>lastError\<close> undefined.
  An exception thrown outside the \<open>try\<close> block rejects the promise at once. Each verb
  method calls \<open>request\<close> with its own method and cache mode.
\<close>

definition run :: "locals \<Rightarrow> event list \<times> settled" where
  "run l =
     (case callBefore l of
        (evs, Some e) \<Rightarrow> (evs, Inl e)
      | (evs, None) \<Rightarrow>
          (case loadingIfShown l True of
             (evs', Some e) \<Rightarrow> (evs @ evs', Inl e)
           | (evs', None) \<Rightarrow>
               (case loop l 0 JUndefined of (evs'', res) \<Rightarrow> (evs @ evs' @ evs'', res))))"

definition request :: "Fetcher \<Rightarrow> env \<Rightarrow> string \<Rightarrow> FetchOptions \<Rightarrow> event list \<times> settled" where
  "request this pf url options = run (scope this pf url options)"

definition get :: "Fetcher \<Rightarrow> env \<Rightarrow> string \<Rightarrow> RequestCache option \<Rightarrow> bool option \<Rightarrow> int option
    \<Rightarrow> int option \<Rightarrow> int option \<Rightarrow> bool option \<Rightarrow> event list \<times> settled" where
  "get this pf url cch dbg rvl tmo rtr shw =
     request this pf url
       \<lparr>FetchOptions.method = Some GET, FetchOptions.headers = None,
        FetchOptions.body = JUndefined, FetchOptions.cache = cch, FetchOptions.debug = dbg,
        revalidateAfter = rvl, FetchOptions.timeout = tmo, FetchOptions.retries = rtr,
        FetchOptions.showLoading = shw\<rparr>"

definition post :: "Fetcher \<Rightarrow> env \<Rightarrow> string \<Rightarrow> js_value \<Rightarrow> bool option \<Rightarrow> int option
    \<Rightarrow> int option \<Rightarrow> bool option \<Rightarrow> event list \<times> settled" where
  "post this pf url bdy dbg tmo rtr shw =
     request this pf url
       \<lparr>FetchOptions.method = Some POST, FetchOptions.headers = None,
        FetchOptions.body = bdy, FetchOptions.cache = Some NoStore, FetchOptions.debug = dbg,
        revalidateAfter = None, FetchOptions.timeout = tmo, FetchOptions.retries = rtr,
        FetchOptions.showLoading = shw\<rparr>"

definition put :: "Fetcher \<Rightarrow> env \<Rightarrow> string \<Rightarrow> js_value \<Rightarrow> bool option \<Rightarrow> int option
    \<Rightarrow> int option \<Rightarrow> bool option \<Rightarrow> event list \<times> settled" where
  "put this pf url bdy dbg tmo rtr shw =
     request this pf url
       \<lparr>FetchOptions.method = Some PUT, FetchOptions.headers = None,
        FetchOptions.body = bdy, FetchOptions.cache = Some NoStore, FetchOptions.debug = dbg,
        revalidateAfter = None, FetchOptions.timeout = tmo, FetchOptions.retries = rtr,
        FetchOptions.showLoading = shw\<rparr>"

definition delete :: "Fetcher \<Rightarrow> env \<Rightarrow> string \<Rightarrow> bool option \<Rightarrow> int option
    \<Rightarrow> int option \<Rightarrow> bool option \<Rightarrow> event list \<times> settled" where
  "delete this pf url dbg tmo rtr shw =
     request this pf url
       \<lparr>FetchOptions.method = Some DELETE, FetchOptions.headers = None,
        FetchOptions.body = JUndefined, FetchOptions.cache = Some NoStore, FetchOptions.debug = dbg,
        revalidateAfter = None, FetchOptions.timeout = tmo, FetchOptions.retries = rtr,
        FetchOptions.showLoading = shw\<rparr>"

section \<open>Observations on a trace\<close>


fun isHook :: "MiddlewareHook \<Rightarrow> event \<Rightarrow> bool" where
  "isHook h (HookCalled h' i u a) = (h' = h)"
| "isHook h _ = False"

fun isLoading :: "event \<Rightarrow> bool" where
  "isLoading (LoadingCalled i b u) = True"
| "isLoading _ = False"





text \<open>
  The calls made when every observer of a list is called once, in registration order:
  the after hooks with the decoded data, the before hooks with the composed options, the
  loading subscribers with a loading state.
\<close>

definition afterCalls :: "locals \<Rightarrow> js_value \<Rightarrow> event list" where
  "afterCalls l v =
     map (\<lambda>i. HookCalled After i (fullURL l) (Data v)) [0 ..< length (middlewares_after (self l))]"


definition loadingCalls :: "locals \<Rightarrow> bool \<Rightarrow> event list" where
  "loadingCalls l b =
     map (\<lambda>i. LoadingCalled i b (fullURL l)) [0 ..< length (loadingSubscribers (self l))]"


fun isTimer :: "event \<Rightarrow> bool" where
  "isTimer (SetTimeout k ms) = True"
| "isTimer (ClearTimeout k) = True"
| "isTimer (TimerFired k) = True"
| "isTimer ev = False"

text \<open>
  The timers that are still armed at the end of a trace: set, and neither cleared nor
  fired.
\<close>

fun armed :: "nat list \<Rightarrow> event \<Rightarrow> nat list" where
  "armed ts (SetTimeout k ms) = ts @ [k]"
| "armed ts (ClearTimeout k) = removeAll k ts"
| "armed ts (TimerFired k) = removeAll k ts"
| "armed ts ev = ts"

definition pendingTimers :: "event list \<Rightarrow> nat list" where
  "pendingTimers evs = foldl armed [] evs"



section \<open>Scenarios\<close>

text \<open>
  Concrete inputs: a fetcher with one observer of each kind, none of which throws; a
  response with a JSON body and one with status 500; a transport that answers 500 twice
  and then succeeds, and one that never succeeds.
\<close>

definition example_fetcher :: Fetcher where
  "example_fetcher =
     onLoading
       (addMiddleware (addMiddleware fetcher Before (\<lambda>u a. None)) After (\<lambda>u a. None))
       (\<lambda>b u. None)"

definition about_response :: response where
  "about_response =
     \<lparr>ok = True, status = 200, content_type = Some ''application/json; charset=utf-8'',
      body_json = Inr (JObject [(''about'', JString ''text'')]),
      body_text = Inr ''{\"about\":\"text\"}'',
      body_blob = Inr ''{\"about\":\"text\"}''\<rparr>"

definition error_response :: response where
  "error_response =
     \<lparr>ok = False, status = 500, content_type = Some ''text/html'',
      body_json = Inl (JError ''SyntaxError'' ''Unexpected token <''),
      body_text = Inr ''<h1>Internal Server Error</h1>'',
      body_blob = Inr ''<h1>Internal Server Error</h1>''\<rparr>"

definition flaky_platform :: env where
  "flaky_platform =
     \<lparr>fetch = (\<lambda>k. if k < 2 then Resolves error_response else Resolves about_response),
      JSON_stringify = (\<lambda>v. ''{}'')\<rparr>"

definition failing_platform :: env where
  "failing_platform =
     \<lparr>fetch = (\<lambda>k. if k = 0 then Rejects (JError ''TypeError'' ''Failed to fetch'')
                    else if k = 1 then TimesOut (JError ''AbortError'' ''The operation was aborted.'')
                    else Resolves error_response),
      JSON_stringify = (\<lambda>v. ''{}'')\<rparr>"

definition offline_platform :: env where
  "offline_platform =
     \<lparr>fetch = (\<lambda>k. Rejects (JError ''TypeError'' ''Failed to fetch'')),
      JSON_stringify = (\<lambda>v. ''{}'')\<rparr>"

definition basic_options :: FetchOptions where
  "basic_options =
     \<lparr>FetchOptions.method = None,
      FetchOptions.headers =
        Some [''Authorization'' \<mapsto> ''Basic dXNlcjpwdw=='', ''Content-Type'' \<mapsto> ''text/plain''],
      FetchOptions.body = JUndefined, FetchOptions.cache = None, FetchOptions.debug = None,
      revalidateAfter = None, FetchOptions.timeout = None, FetchOptions.retries = None,
      FetchOptions.showLoading = None\<rparr>"

definition hello_response :: response where
  "hello_response =
     \<lparr>ok = True, status = 200, content_type = Some ''text/plain'',
      body_json = Inl (JError ''SyntaxError'' ''Unexpected token h''),
      body_text = Inr ''hello'', body_blob = Inr ''hello''\<rparr>"

definition untyped_response :: response where
  "untyped_response =
     \<lparr>ok = True, status = 200, content_type = None,
      body_json = Inl (JError ''SyntaxError'' ''Unexpected token h''),
      body_text = Inr ''hello'', body_blob = Inr ''hello''\<rparr>"

definition a1_response :: response where
  "a1_response =
     \<lparr>ok = True, status = 200, content_type = Some ''application/json'',
      body_json = Inr (JObject [(''a'', JNumber 1)]),
      body_text = Inr ''{\"a\":1}'', body_blob = Inr ''{\"a\":1}''\<rparr>"

definition canned_platform :: env where
  "canned_platform =
     \<lparr>fetch = (\<lambda>k. if k = 0 then Resolves a1_response
                    else if k = 1 then Resolves hello_response
                    else Resolves untyped_response),
      JSON_stringify = (\<lambda>v. if v = JObject [(''a'', JNumber 1)] then ''{\"a\":1}'' else ''null'')\<rparr>"

section \<open>Properties of the pipeline\<close>


lemma forEach_events:
  "e \<in> set (fst (forEach call i fns)) \<Longrightarrow> \<exists>j fn. e = fst (call j fn)"
proof (induction fns arbitrary: i)
  case Nil
  then show ?case by simp
next
  case (Cons fn fns)
  obtain ev r where c: "call i fn = (ev, r)" by (cases "call i fn")
  obtain evs r' where f: "forEach call (Suc i) fns = (evs, r')"
    by (cases "forEach call (Suc i) fns")
  show ?case
  proof (cases r)
    case None
    with c f Cons.prems have "e = ev \<or> e \<in> set (fst (forEach call (Suc i) fns))" by auto
    then show ?thesis
    proof
      assume "e = ev"
      with c have "e = fst (call i fn)" by simp
      then show ?thesis by blast
    next
      assume "e \<in> set (fst (forEach call (Suc i) fns))"
      then show ?thesis by (rule Cons.IH)
    qed
  next
    case (Some x)
    with c Cons.prems have "e = fst (call i fn)" by simp
    then show ?thesis by blast
  qed
qed

lemma forEach_filter_none:
  assumes "\<And>j fn. \<not> P (fst (call j fn))"
  shows "filter P (fst (forEach call i fns)) = []"
proof -
  have "\<forall>e \<in> set (fst (forEach call i fns)). \<not> P e"
    using forEach_events [of _ call i fns] assms by blast
  then show ?thesis by (simp add: filter_empty_conv)
qed








lemma callAfter_blind:
  assumes "\<And>i u a. \<not> P (HookCalled After i u a)"
  shows "filter P (fst (callAfter l d)) = []"
  unfolding callAfter_def by (rule forEach_filter_none) (simp add: assms)


lemma loadingIfShown_blind:
  assumes "\<And>i b u. \<not> P (LoadingCalled i b u)"
  shows "filter P (fst (loadingIfShown l b)) = []"
proof (cases "showLoading l")
  case True
  then show ?thesis
    unfolding loadingIfShown_def notifyLoading_def
    by (simp add: forEach_filter_none assms)
next
  case False
  then show ?thesis by (simp add: loadingIfShown_def)
qed

lemma onResponse_not_ok:
  "\<not> ok r \<Longrightarrow> onResponse l r =
     ([], Inl (JError ''Error'' (''[fetcher] Request failed with status '' @ decimal (status r))))"
  by (simp add: onResponse_def)

lemma onResponse_unreadable:
  "ok r \<Longrightarrow> readBody r (classify (contentType r)) = Inl e \<Longrightarrow>
   onResponse l r = ([BodyRead (classify (contentType r))], Inl e)"
  by (simp add: onResponse_def)

lemma onResponse_read:
  "ok r \<Longrightarrow> readBody r (classify (contentType r)) = Inr d \<Longrightarrow>
   onResponse l r =
     (BodyRead (classify (contentType r)) # (if debug l then [Console (LogSuccess d)] else [])
        @ fst (callAfter l d)
        @ (case snd (callAfter l d) of None \<Rightarrow> fst (loadingIfShown l False) | Some e \<Rightarrow> []),
      case snd (callAfter l d) of
        Some e \<Rightarrow> Inl e
      | None \<Rightarrow> (case snd (loadingIfShown l False) of Some e \<Rightarrow> Inl e | None \<Rightarrow> Inr d))"
proof -
  assume a: "ok r" "readBody r (classify (contentType r)) = Inr d"
  obtain evs x where c: "callAfter l d = (evs, x)" by (cases "callAfter l d")
  obtain evs' y where n: "loadingIfShown l False = (evs', y)" by (cases "loadingIfShown l False")
  show ?thesis
    by (cases x; cases y) (simp_all add: onResponse_def Let_def a c n)
qed

lemma onResponse_blind:
  assumes "\<And>i u a. \<not> P (HookCalled After i u a)"
    and "\<And>i b u. \<not> P (LoadingCalled i b u)"
    and "\<And>s. \<not> P (BodyRead s)"
    and "\<And>c. \<not> P (Console c)"
  shows "filter P (fst (onResponse l r)) = []"
proof (cases "ok r")
  case False
  then show ?thesis by (simp add: onResponse_not_ok)
next
  case True
  show ?thesis
  proof (cases "readBody r (classify (contentType r))")
    case (Inl e)
    with True show ?thesis by (simp add: onResponse_unreadable assms)
  next
    case (Inr d)
    with True show ?thesis
      by (simp add: onResponse_read assms callAfter_blind loadingIfShown_blind
          split: option.splits)
  qed
qed

lemma tryBlock_Rejects:
  "fetch (platform l) k = Rejects e \<Longrightarrow> tryBlock l k = (started l k, Inl e)"
  by (simp add: tryBlock_def)

lemma tryBlock_TimesOut:
  "fetch (platform l) k = TimesOut e \<Longrightarrow> tryBlock l k = (started l k @ [TimerFired k], Inl e)"
  by (simp add: tryBlock_def)

lemma tryBlock_Resolves:
  "fetch (platform l) k = Resolves r \<Longrightarrow>
   tryBlock l k = (started l k @ ClearTimeout k # fst (onResponse l r), snd (onResponse l r))"
  by (simp add: tryBlock_def split: prod.splits)










lemma isHook_afterCalls [simp]:
  "filter (isHook After) (afterCalls l v) = afterCalls l v"
  "filter isLoading (afterCalls l v) = []"
  by (simp_all add: afterCalls_def filter_map comp_def)

lemma isLoading_loadingCalls [simp]:
  "filter isLoading (loadingCalls l b) = loadingCalls l b"
  "filter (isHook h) (loadingCalls l b) = []"
  by (simp_all add: loadingCalls_def filter_map comp_def)

lemma started_quiet [simp]:
  "filter (isHook h) (started l k) = []"
  "filter isLoading (started l k) = []"
  by (simp_all add: started_def)












lemmas scenario_defs = get_def post_def put_def delete_def request_def run_def scope_def Let_def
  default_def callBefore_def callAfter_def loadingIfShown_def notifyLoading_def tryBlock_def
  started_def onResponse_def classify_def contentType_def readBody_def finalHeaders_def
  example_fetcher_def fetcher_def addMiddleware_def onLoading_def setToken_def setBaseURL_def
  flaky_platform_def failing_platform_def offline_platform_def about_response_def
  error_response_def decimal.simps loop.simps


















lemma armed_blind: "filter isTimer evs = [] \<Longrightarrow> foldl armed ts evs = ts"
proof (induction evs arbitrary: ts)
  case Nil
  show ?case by simp
next
  case (Cons ev evs)
  then show ?case by (cases ev) (simp_all split: if_splits)
qed

lemma started_armed: "foldl armed ts (started l k) = ts @ [k]"
  by (simp add: started_def)

lemma tryBlock_pendingTimers:
  "pendingTimers (fst (tryBlock l k))
     = (case fetch (platform l) k of Rejects e \<Rightarrow> [k] | TimesOut e \<Rightarrow> [] | Resolves r \<Rightarrow> [])"
proof (cases "fetch (platform l) k")
  case (Rejects e)
  then show ?thesis by (simp add: pendingTimers_def tryBlock_Rejects started_armed)
next
  case (TimesOut e)
  then show ?thesis by (simp add: pendingTimers_def tryBlock_TimesOut started_armed)
next
  case (Resolves r)
  have "filter isTimer (fst (onResponse l r)) = []" by (simp add: onResponse_blind)
  with Resolves show ?thesis
    by (simp add: pendingTimers_def tryBlock_Resolves started_armed armed_blind)
qed

section \<open>The claims\<close>





text \<open>
  C3. The timer armed for an attempt is disarmed as soon as the transport call settles, on
  the success exit and on the failure exit, so that no timer outlives its attempt. The
  code calls \<open>clearTimeout\<close> only on the line after the awaited call: when \<open>fetch\<close>
  rejects before the timer fires, control passes to the \<open>catch\<close> clause and the timer
  stays armed (\<open>tryBlock_pendingTimers\<close>). Here the transport is offline and the
  request uses the default budget of one attempt: the request has rejected and timer 0 is
  still pending.
\<close>

theorem timer_left_armed_when_fetch_rejects:
  "snd (get example_fetcher offline_platform ''/about'' None None None None None None)
     = Inl (JError ''TypeError'' ''Failed to fetch'')
   \<and> pendingTimers (fst (get example_fetcher offline_platform ''/about''
         None None None None None None)) = [0]"
  by (simp add: scenario_defs pendingTimers_def)





text \<open>
  C6. The composed headers hold the default content type unless the caller's headers
  supply the key \<open>Content-Type\<close>, and a credential puts \<open>Bearer\<close> and the token
  under \<open>Authorization\<close>, over any header of the caller. As stated (whenever the token
  is set) the second part fails for the empty token: \<open>if (this.token)\<close> tests truthiness,
  so after \<open>setToken("")\<close> no \<open>Authorization\<close> header is written and the caller's own
  one stays.
\<close>

theorem empty_token_adds_no_authorization:
  "token (setToken fetcher []) = Some []
   \<and> RequestInit.headers
        (fetchOptions (scope (setToken fetcher []) canned_platform ''/about'' basic_options))
        ''Authorization'' = Some ''Basic dXNlcjpwdw==''
   \<and> RequestInit.headers
        (fetchOptions (scope (setToken fetcher []) canned_platform ''/about'' basic_options))
        ''Authorization'' \<noteq> Some (''Bearer '' @ [])"
  by (simp add: setToken_def fetcher_def scope_def Let_def default_def finalHeaders_def
      basic_options_def)

text \<open>
  C6, amended. The composed headers hold the default content type unless the caller's
  headers supply the key \<open>Content-Type\<close>, and whenever the token is set to a non-empty
  string, \<open>Authorization\<close> is \<open>Bearer\<close> followed by the token, over any header of
  the caller.
\<close>

theorem composed_headers:
  "RequestInit.headers (fetchOptions (scope this pf url options)) ''Content-Type''
     = Some (case default Map.empty (FetchOptions.headers options) ''Content-Type'' of
               None \<Rightarrow> ''application/json''
             | Some v \<Rightarrow> v)
   \<and> (\<forall>tok. token this = Some tok \<and> tok \<noteq> [] \<longrightarrow>
         RequestInit.headers (fetchOptions (scope this pf url options)) ''Authorization''
           = Some (''Bearer '' @ tok))"
  by (auto simp: scope_def Let_def finalHeaders_def map_add_def split: option.splits)

theorem composed_headers_witness:
  "token (setToken fetcher ''abc'') = Some ''abc'' \<and> ''abc'' \<noteq> []
   \<and> RequestInit.headers
        (fetchOptions (scope (setToken fetcher ''abc'') canned_platform ''/about'' basic_options))
        ''Content-Type'' = Some ''text/plain''
   \<and> RequestInit.headers
        (fetchOptions (scope (setToken fetcher ''abc'') canned_platform ''/about'' basic_options))
        ''Authorization'' = Some ''Bearer abc''"
  using composed_headers [of "setToken fetcher ''abc''" canned_platform "''/about''" basic_options]
  by (simp add: setToken_def fetcher_def basic_options_def default_def)










end
